theory Spec2Isabelle
  imports Main
begin

section \<open>Data model\<close>

text \<open>
  The preprocessing dispatcher \<^verbatim>\<open>autoPreprocess\<close> with \<^verbatim>\<open>runTransformer\<close> (the second
  document of \<^verbatim>\<open>src/src/transformers/scss.ts\<close>). JavaScript strings are modelled as \<open>string\<close>;
  a value that may be \<^verbatim>\<open>undefined\<close> is an \<open>option\<close>, \<open>None\<close> standing for
  \<^verbatim>\<open>undefined\<close> (an absent object property reads as \<^verbatim>\<open>undefined\<close> too).
\<close>

datatype jsvalue = JBool bool | JStr string | JNum int | JObj "(string \<times> jsvalue) list"

datatype attrValue = AttrString string | AttrTrue

type_synonym attributes = "string \<rightharpoonup> attrValue"

type_synonym sourcemap = string

text \<open>Rejections of the asynchronous functions: a failed dynamic import, a
  \<^verbatim>\<open>TypeError\<close> of the runtime, or whatever a collaborator rejects with.\<close>

datatype error = ModuleNotFound string | TypeError string | Rejected string

text \<open>\<^verbatim>\<open>Processed\<close>: \<^verbatim>\<open>{code, map, dependencies, diagnostics}\<close>.\<close>

record processed =
  code :: "string option"
  map_out :: "sourcemap option"
  dependencies :: "string list option"
  diagnostics :: "string list option"

text \<open>\<^verbatim>\<open>TransformerArgs\<close> without its \<^verbatim>\<open>options\<close>: \<^verbatim>\<open>{content, map, filename, attributes}\<close>.
  The object handed to a preprocessor (\<^verbatim>\<open>svelteFile\<close>) has the same shape, its
  \<^verbatim>\<open>map\<close> absent.\<close>

record transformerArgs =
  content :: "string option"
  map_in :: "sourcemap option"
  filename :: "string option"
  attributes :: "attributes option"

text \<open>What \<^verbatim>\<open>getTagInfo\<close> resolves to:
  \<^verbatim>\<open>{content, filename, lang, alias, dependencies, attributes}\<close>.\<close>

record tagInfo =
  tag_content :: "string option"
  tag_filename :: "string option"
  tag_lang :: "string option"
  tag_alias :: "string option"
  tag_dependencies :: "string list option"
  tag_attributes :: "attributes option"

text \<open>\<^verbatim>\<open>TransformerOptions\<close>: a boolean, a function used as the transformer, or an
  options object. An option that is not configured is \<open>None\<close>.\<close>

datatype transformerOptions =
    OptFalse
  | OptTrue
  | OptFunction "transformerArgs \<Rightarrow> error + processed"
  | OptObject "string \<rightharpoonup> jsvalue"

text \<open>The \<^verbatim>\<open>options\<close> property a transformer module receives.\<close>

datatype optionsArg = OptionsNull | OptionsUndefined | OptionsValue transformerOptions

datatype blockType = Markup | Script | Style

section \<open>Asynchronous results with a trace of module activity\<close>

text \<open>
  Every function of the dispatcher is \<^verbatim>\<open>async\<close>: it resolves to a value or rejects
  with an error. The trace records, in order, each dynamic \<^verbatim>\<open>import\<close> of a
  transformer module, each call of a loaded module's \<^verbatim>\<open>transformer\<close>, and each call
  of a function supplied as options.
\<close>

datatype event = Import string | Invoke string | CallFunction

type_synonym 'a io = "event list \<times> (error + 'a)"

definition resolve :: "'a \<Rightarrow> 'a io" where
  "resolve x = ([], Inr x)"

definition reject :: "error \<Rightarrow> 'a io" where
  "reject e = ([], Inl e)"

definition await :: "'a io \<Rightarrow> ('a \<Rightarrow> 'b io) \<Rightarrow> 'b io" where
  "await m k =
     (case m of
        (t, Inl e) \<Rightarrow> (t, Inl e)
      | (t, Inr x) \<Rightarrow> (case k x of (t', r) \<Rightarrow> (t @ t', r)))"

section \<open>Collaborators that are not part of the dispatcher\<close>

text \<open>
  \<^verbatim>\<open>getTagInfo\<close>, \<^verbatim>\<open>prepareContent\<close>, \<^verbatim>\<open>hasDepInstalled\<close>, the table
  \<^verbatim>\<open>SOURCE_MAP_PROP_MAP\<close> and the transformer modules reached through
  \<^verbatim>\<open>import(`./transformers/${name}`)\<close> are parameters of the model.
  \<open>importTransformer env name = None\<close> means that no such module exists.
\<close>

record env =
  getTagInfo :: "transformerArgs \<Rightarrow> error + tagInfo"
  prepareContent :: "transformerOptions \<Rightarrow> string option \<Rightarrow> string option"
  importTransformer :: "string \<Rightarrow> (transformerArgs \<Rightarrow> optionsArg \<Rightarrow> error + processed) option"
  hasDepInstalled :: "string \<Rightarrow> bool"
  SOURCE_MAP_PROP_MAP :: "string \<rightharpoonup> string \<times> jsvalue"

section \<open>runTransformer\<close>

text \<open>\<^verbatim>\<open>typeof options === 'boolean' ? null : options\<close>\<close>

fun optionsForTransformer :: "transformerOptions option \<Rightarrow> optionsArg" where
  "optionsForTransformer None = OptionsUndefined"
| "optionsForTransformer (Some OptFalse) = OptionsNull"
| "optionsForTransformer (Some OptTrue) = OptionsNull"
| "optionsForTransformer (Some opts) = OptionsValue opts"

fun runTransformer ::
  "env \<Rightarrow> string \<Rightarrow> transformerOptions option \<Rightarrow> transformerArgs \<Rightarrow> processed io" where
  "runTransformer env name (Some OptFalse) args =
     resolve \<lparr>code = content args, map_out = None, dependencies = None, diagnostics = None\<rparr>"
| "runTransformer env name (Some (OptFunction options)) args =
     ([CallFunction],
      options \<lparr>content = content args, map_in = map_in args,
               filename = filename args, attributes = attributes args\<rparr>)"
| "runTransformer env name options args =
     (case importTransformer env name of
        None \<Rightarrow> ([Import name], Inl (ModuleNotFound name))
      | Some transformer \<Rightarrow>
          ([Import name, Invoke name],
           transformer
             \<lparr>content = content args, map_in = map_in args,
              filename = filename args, attributes = attributes args\<rparr>
             (optionsForTransformer options)))"

section \<open>The markup container pattern\<close>

text \<open>
  \<^verbatim>\<open>new RegExp(`<${markupTagName}([\\s\\S]*?)(?:>([\\s\\S]*)<\\/${markupTagName}>|/>)`)\<close>,
  applied with \<^verbatim>\<open>content.match\<close> (no flags: one match, the leftmost, case-sensitive).
  The functions below follow the backtracking order of the regular expression. The tag
  name is matched character by character, which is what the pattern does when the name
  holds no character of the regular-expression syntax (\<open>regexLiteral\<close>).
\<close>

definition regexSyntaxChars :: "char list" where
  "regexSyntaxChars =
     [CHR 0x5C, CHR ''^'', CHR ''$'', CHR ''.'', CHR ''*'', CHR ''+'', CHR ''?'',
      CHR ''('', CHR '')'', CHR ''['', CHR '']'', CHR ''{'', CHR ''}'', CHR ''|'']"

definition regexLiteral :: "string \<Rightarrow> bool" where
  "regexLiteral tag = list_all (\<lambda>c. \<not> List.member regexSyntaxChars c) tag"

text \<open>The match array: \<^verbatim>\<open>index\<close>, \<^verbatim>\<open>[fullMatch, attributesStr, templateCode]\<close>.
  The second group takes no part in a self-closing match and is \<^verbatim>\<open>undefined\<close> then.\<close>

record regexMatch =
  index :: nat
  fullMatch :: string
  attributesStr :: string
  templateCode :: "string option"

text \<open>A literal at the start of the input: the input after it.\<close>

fun literal :: "string \<Rightarrow> string \<Rightarrow> string option" where
  "literal [] s = Some s"
| "literal (p # ps) [] = None"
| "literal (p # ps) (c # cs) = (if p = c then literal ps cs else None)"

text \<open>\<^verbatim>\<open><\/${markupTagName}>\<close>\<close>

definition closingTag :: "string \<Rightarrow> string" where
  "closingTag tag = ''</'' @ tag @ ''>''"

text \<open>\<^verbatim>\<open>([\s\S]*)<\/tag>\<close>: the star is greedy, so the longest capture that is
  followed by the closing tag is tried first, then the shorter ones. The result is the
  capture and the input after the closing tag.\<close>

fun innerToClose :: "string \<Rightarrow> string \<Rightarrow> (string \<times> string) option" where
  "innerToClose tag [] = map_option (Pair []) (literal (closingTag tag) [])"
| "innerToClose tag (c # cs) =
     (case innerToClose tag cs of
        Some (inner, after) \<Rightarrow> Some (c # inner, after)
      | None \<Rightarrow> map_option (Pair []) (literal (closingTag tag) (c # cs)))"

text \<open>\<^verbatim>\<open>(?:>([\s\S]*)<\/tag>|/>)\<close>: the first alternative, then the second.\<close>

definition closing :: "string \<Rightarrow> string \<Rightarrow> (string option \<times> string) option" where
  "closing tag s =
     (case (case literal ''>'' s of
              Some s' \<Rightarrow> innerToClose tag s'
            | None \<Rightarrow> None) of
        Some (inner, after) \<Rightarrow> Some (Some inner, after)
      | None \<Rightarrow> map_option (Pair None) (literal ''/>'' s))"

text \<open>\<^verbatim>\<open>([\s\S]*?)\<close> followed by the alternatives: the star is lazy, so the
  shortest capture after which the rest of the pattern matches is taken.\<close>

fun attrsThenClosing :: "string \<Rightarrow> string \<Rightarrow> (string \<times> string option \<times> string) option" where
  "attrsThenClosing tag [] = map_option (Pair []) (closing tag [])"
| "attrsThenClosing tag (c # cs) =
     (case closing tag (c # cs) of
        Some r \<Rightarrow> Some ([], r)
      | None \<Rightarrow>
          (case attrsThenClosing tag cs of
             Some (attrs, r) \<Rightarrow> Some (c # attrs, r)
           | None \<Rightarrow> None))"

text \<open>The whole pattern at the start of the input.\<close>

definition matchHere :: "string \<Rightarrow> string \<Rightarrow> (string \<times> string \<times> string option) option" where
  "matchHere tag s =
     (case literal (''<'' @ tag) s of
        None \<Rightarrow> None
      | Some s' \<Rightarrow>
          (case attrsThenClosing tag s' of
             None \<Rightarrow> None
           | Some (attrs, inner, after) \<Rightarrow>
               Some (take (length s - length after) s, attrs, inner)))"

text \<open>The leftmost start position at which the pattern matches.\<close>

fun matchFrom :: "string \<Rightarrow> nat \<Rightarrow> string \<Rightarrow> regexMatch option" where
  "matchFrom tag i [] =
     (case matchHere tag [] of
        Some (full, attrs, inner) \<Rightarrow>
          Some \<lparr>index = i, fullMatch = full, attributesStr = attrs, templateCode = inner\<rparr>
      | None \<Rightarrow> None)"
| "matchFrom tag i (c # cs) =
     (case matchHere tag (c # cs) of
        Some (full, attrs, inner) \<Rightarrow>
          Some \<lparr>index = i, fullMatch = full, attributesStr = attrs, templateCode = inner\<rparr>
      | None \<Rightarrow> matchFrom tag (Suc i) cs)"

text \<open>\<^verbatim>\<open>content.match(markupPattern)\<close> for the pattern built from the tag name.\<close>

definition markupPattern :: "string \<Rightarrow> string \<Rightarrow> regexMatch option" where
  "markupPattern tag document = matchFrom tag 0 document"

section \<open>Attribute strings\<close>

text \<open>The white space of \<^verbatim>\<open>\s\<close> among the characters below 256.\<close>

definition isWhiteSpace :: "char \<Rightarrow> bool" where
  "isWhiteSpace c =
     List.member [CHR 0x09, CHR 0x0A, CHR 0x0B, CHR 0x0C, CHR 0x0D, CHR 0x20, CHR 0xA0] c"

text \<open>\<^verbatim>\<open>s.split(sep)\<close> for a separator of one character.\<close>

fun split :: "char \<Rightarrow> string \<Rightarrow> string list" where
  "split sep [] = [[]]"
| "split sep (c # cs) =
     (if c = sep then [] # split sep cs
      else (case split sep cs of
              w # ws \<Rightarrow> (c # w) # ws
            | [] \<Rightarrow> [[c]]))"

text \<open>\<^verbatim>\<open>s.split(/\s+/)\<close>: a run of white space separates two pieces.\<close>

function splitWhiteSpace :: "string \<Rightarrow> string list" where
  "splitWhiteSpace [] = [[]]"
| "splitWhiteSpace (c # cs) =
     (if isWhiteSpace c then [] # splitWhiteSpace (dropWhile isWhiteSpace cs)
      else (case splitWhiteSpace cs of
              w # ws \<Rightarrow> (c # w) # ws
            | [] \<Rightarrow> [[c]]))"
  by pat_completeness auto
termination
  by (relation "measure length") (auto simp: le_imp_less_Suc length_dropWhile_le)

text \<open>\<^verbatim>\<open>value ? value.replace(/['"]/g, '') : true\<close>\<close>

fun attributeValue :: "string option \<Rightarrow> attrValue" where
  "attributeValue None = AttrTrue"
| "attributeValue (Some []) = AttrTrue"
| "attributeValue (Some value) =
     AttrString (filter (\<lambda>c. c \<noteq> CHR 0x27 \<and> c \<noteq> CHR 0x22) value)"

text \<open>\<^verbatim>\<open>const [name, value] = attr.split('='); acc[name] = ...\<close>. Assigning a
  string or \<^verbatim>\<open>true\<close> to \<^verbatim>\<open>__proto__\<close> leaves the object as it is.\<close>

definition setProperty :: "attributes \<Rightarrow> string \<Rightarrow> attrValue \<Rightarrow> attributes" where
  "setProperty acc name v = (if name = ''__proto__'' then acc else acc(name \<mapsto> v))"

definition addAttribute :: "attributes \<Rightarrow> string \<Rightarrow> attributes" where
  "addAttribute acc attr =
     (case split (CHR ''='') attr of
        [] \<Rightarrow> acc
      | [name] \<Rightarrow> setProperty acc name (attributeValue None)
      | name # value # _ \<Rightarrow> setProperty acc name (attributeValue (Some value)))"

text \<open>\<^verbatim>\<open>attributesStr.split(/\s+/).filter(Boolean).reduce(..., {})\<close>\<close>

definition parseAttributes :: "string \<Rightarrow> attributes" where
  "parseAttributes str =
     foldl addAttribute Map.empty (filter (\<lambda>attr. attr \<noteq> []) (splitWhiteSpace str))"

section \<open>Language aliases and merged lists\<close>

type_synonym aliasMap = "string \<rightharpoonup> string"

text \<open>Modelled from the spec: \<^verbatim>\<open>addLanguageAlias\<close> of \<^verbatim>\<open>modules/language\<close> is
  missing from the sources. Section 4.1: registering pairs (alias, canonical name), a
  later registration of an alias overwriting an earlier one.\<close>

definition addLanguageAlias :: "(string \<times> string) list \<Rightarrow> aliasMap \<Rightarrow> aliasMap" where
  "addLanguageAlias pairs reg = foldl (\<lambda>m (a, canonical). m(a \<mapsto> canonical)) reg pairs"

text \<open>Modelled from the spec: \<^verbatim>\<open>getLanguageFromAlias\<close> of \<^verbatim>\<open>modules/language\<close> is
  missing from the sources. Section 4.1: the mapped canonical name, or the alias itself
  unchanged when it is not mapped. Only strings are registered, so an alias that is
  \<^verbatim>\<open>undefined\<close> is not mapped and comes back unchanged.\<close>

definition getLanguageFromAlias :: "aliasMap \<Rightarrow> string option \<Rightarrow> string option" where
  "getLanguageFromAlias reg a =
     (case a of
        None \<Rightarrow> None
      | Some s \<Rightarrow> Some (case reg s of Some canonical \<Rightarrow> canonical | None \<Rightarrow> s))"

text \<open>Modelled from the spec: \<^verbatim>\<open>concat\<close> of \<^verbatim>\<open>modules/concat\<close> is missing from the
  sources. Section 4.5: both absent, absent; one present, that one; both present, the
  first followed by the second.\<close>

fun concat' :: "'a list option \<Rightarrow> 'a list option \<Rightarrow> 'a list option" where
  "concat' None None = None"
| "concat' (Some a) None = Some a"
| "concat' None (Some b) = Some b"
| "concat' (Some a) (Some b) = Some (a @ b)"

section \<open>autoPreprocess\<close>

text \<open>The options object of \<^verbatim>\<open>autoPreprocess\<close>: the named properties, each of which
  may be absent, and the remaining properties (\<^verbatim>\<open>...rest\<close>), read as
  \<^verbatim>\<open>transformers[key]\<close>. An entry of \<^verbatim>\<open>defaults\<close> is absent (the map gives \<open>None\<close>),
  or present with a string or with \<^verbatim>\<open>undefined\<close> (\<open>Some None\<close>): the type
  \<^verbatim>\<open>{markup?: string; style?: string; script?: string}\<close> admits all three.\<close>

record autoPreprocessOptions =
  aliases :: "(string \<times> string) list option"
  opt_markupTagName :: "string option"
  opt_preserve :: "string list option"
  defaults :: "(blockType \<rightharpoonup> string option) option"
  opt_sourceMap :: "bool option"
  rest :: "string \<rightharpoonup> transformerOptions"

text \<open>What the closures of \<^verbatim>\<open>autoPreprocess\<close> capture.\<close>

record config =
  markupTagName :: string
  preserve :: "string list"
  defaultLanguages :: "blockType \<Rightarrow> string option"
  sourceMap :: bool
  transformers :: "string \<rightharpoonup> transformerOptions"

text \<open>\<^verbatim>\<open>toLocaleLowerCase\<close> on the characters below 256, in a locale without special
  casing rules: the letters A to Z and the upper-case letters of Latin-1 move by 32.\<close>

definition lowerChar :: "char \<Rightarrow> char" where
  "lowerChar c =
     (let n = (of_char c :: nat)
      in if (65 \<le> n \<and> n \<le> 90) \<or> (192 \<le> n \<and> n \<le> 222 \<and> n \<noteq> 215)
         then char_of (n + 32) else c)"

definition toLocaleLowerCase :: "string \<Rightarrow> string" where
  "toLocaleLowerCase s = map lowerChar s"

text \<open>\<^verbatim>\<open>{markup: 'html', style: 'css', script: 'javascript', ...defaults}\<close>: the spread
  copies every entry that is present, also one whose value is \<^verbatim>\<open>undefined\<close>.\<close>

fun builtinDefault :: "blockType \<Rightarrow> string" where
  "builtinDefault Markup = ''html''"
| "builtinDefault Style = ''css''"
| "builtinDefault Script = ''javascript''"

definition mergeDefaults ::
  "(blockType \<rightharpoonup> string option) option \<Rightarrow> blockType \<Rightarrow> string option" where
  "mergeDefaults d t =
     (case d of
        None \<Rightarrow> Some (builtinDefault t)
      | Some m \<Rightarrow> (case m t of None \<Rightarrow> Some (builtinDefault t) | Some v \<Rightarrow> v))"

text \<open>The configuration part of \<^verbatim>\<open>autoPreprocess\<close> (lines 155 to 181): the captured
  values and the alias registry after \<^verbatim>\<open>addLanguageAlias\<close>.\<close>

definition autoPreprocess :: "autoPreprocessOptions \<Rightarrow> aliasMap \<Rightarrow> config \<times> aliasMap" where
  "autoPreprocess opts reg =
     (\<lparr>markupTagName =
         toLocaleLowerCase (case opt_markupTagName opts of None \<Rightarrow> ''template'' | Some n \<Rightarrow> n),
       preserve = (case opt_preserve opts of None \<Rightarrow> [] | Some p \<Rightarrow> p),
       defaultLanguages = mergeDefaults (defaults opts),
       sourceMap = (case opt_sourceMap opts of None \<Rightarrow> False | Some b \<Rightarrow> b),
       transformers = rest opts\<rparr>,
      (case aliases opts of
         None \<Rightarrow> reg
       | Some [] \<Rightarrow> reg
       | Some pairs \<Rightarrow> addLanguageAlias pairs reg))"

section \<open>getTransformerOptions\<close>

text \<open>A value used as a property key or inside a template literal: \<^verbatim>\<open>undefined\<close>
  becomes the string \<^verbatim>\<open>"undefined"\<close>.\<close>

fun toStringJS :: "string option \<Rightarrow> string" where
  "toStringJS None = ''undefined''"
| "toStringJS (Some s) = s"

definition ALIAS_OPTION_OVERRIDES :: "string \<rightharpoonup> (string \<rightharpoonup> jsvalue)" where
  "ALIAS_OPTION_OVERRIDES = [''sass'' \<mapsto> [''indentedSyntax'' \<mapsto> JBool True]]"

fun isFalse :: "transformerOptions option \<Rightarrow> bool" where
  "isFalse (Some OptFalse) = True"
| "isFalse _ = False"

fun isFunction :: "transformerOptions option \<Rightarrow> bool" where
  "isFunction (Some (OptFunction f)) = True"
| "isFunction _ = False"

text \<open>\<^verbatim>\<open>if (typeof x === 'object') Object.assign(opts, x)\<close>\<close>

fun assignObject :: "(string \<rightharpoonup> jsvalue) \<Rightarrow> transformerOptions option \<Rightarrow> (string \<rightharpoonup> jsvalue)" where
  "assignObject opts (Some (OptObject x)) = opts ++ x"
| "assignObject opts _ = opts"

text \<open>\<^verbatim>\<open>Object.assign(opts, ALIAS_OPTION_OVERRIDES[alias] || null)\<close>\<close>

definition assignOverrides :: "(string \<rightharpoonup> jsvalue) \<Rightarrow> string option \<Rightarrow> (string \<rightharpoonup> jsvalue)" where
  "assignOverrides opts a =
     (case ALIAS_OPTION_OVERRIDES (toStringJS a) of
        None \<Rightarrow> opts
      | Some override \<Rightarrow> opts ++ override)"

text \<open>\<^verbatim>\<open>if (sourceMap && name in SOURCE_MAP_PROP_MAP) opts[propName] = value\<close>\<close>

definition assignSourceMap ::
  "env \<Rightarrow> config \<Rightarrow> string option \<Rightarrow> (string \<rightharpoonup> jsvalue) \<Rightarrow> (string \<rightharpoonup> jsvalue)" where
  "assignSourceMap env cfg name opts =
     (if sourceMap cfg
      then (case SOURCE_MAP_PROP_MAP env (toStringJS name) of
              None \<Rightarrow> opts
            | Some (propName, v) \<Rightarrow> opts(propName \<mapsto> v))
      else opts)"

definition getTransformerOptions ::
  "env \<Rightarrow> config \<Rightarrow> string option \<Rightarrow> string option \<Rightarrow> transformerOptions" where
  "getTransformerOptions env cfg name a =
     (let nameOpts = transformers cfg (toStringJS name);
          aliasOpts = transformers cfg (toStringJS a)
      in if isFunction aliasOpts then (case aliasOpts of Some f \<Rightarrow> f | None \<Rightarrow> OptFalse)
         else if isFunction nameOpts then (case nameOpts of Some f \<Rightarrow> f | None \<Rightarrow> OptFalse)
         else if isFalse aliasOpts \<or> isFalse nameOpts then OptFalse
         else
           (let opts = assignObject Map.empty nameOpts;
                opts' = (if name \<noteq> a
                         then assignObject (assignOverrides opts a) aliasOpts
                         else opts)
            in OptObject (assignSourceMap env cfg name opts')))"

section \<open>getTransformerTo\<close>

text \<open>Lines 229 to 232: the language and alias of the block after the fallback to the
  default language of its category.\<close>

definition effectiveLanguage ::
  "aliasMap \<Rightarrow> config \<Rightarrow> blockType \<Rightarrow> tagInfo \<Rightarrow> string option \<times> string option" where
  "effectiveLanguage reg cfg type ti =
     (if tag_lang ti = None \<or> tag_alias ti = None
      then (let a = defaultLanguages cfg type
            in (getLanguageFromAlias reg a, a))
      else (tag_lang ti, tag_alias ti))"

text \<open>\<^verbatim>\<open>preserve.includes(x)\<close> for a list of strings.\<close>

fun arrayIncludes :: "string list \<Rightarrow> string option \<Rightarrow> bool" where
  "arrayIncludes xs None = False"
| "arrayIncludes xs (Some x) = List.member xs x"

definition getTransformerTo ::
  "env \<Rightarrow> aliasMap \<Rightarrow> config \<Rightarrow> blockType \<Rightarrow> string \<Rightarrow> transformerArgs \<Rightarrow> processed io" where
  "getTransformerTo env reg cfg type targetLanguage svelteFile =
     await ([], getTagInfo env svelteFile) (\<lambda>ti.
       case effectiveLanguage reg cfg type ti of (lang, a) \<Rightarrow>
         if arrayIncludes (preserve cfg) lang \<or> arrayIncludes (preserve cfg) a
         then resolve \<lparr>code = tag_content ti, map_out = None,
                       dependencies = None, diagnostics = None\<rparr>
         else
           (let transformerOptions = getTransformerOptions env cfg lang a;
                prepared = prepareContent env transformerOptions (tag_content ti)
            in if lang = Some targetLanguage
               then resolve \<lparr>code = prepared, map_out = None,
                             dependencies = tag_dependencies ti, diagnostics = None\<rparr>
               else
                 await (runTransformer env (toStringJS lang) (Some transformerOptions)
                          \<lparr>content = prepared, map_in = None,
                           filename = tag_filename ti, attributes = tag_attributes ti\<rparr>)
                   (\<lambda>transformed.
                      resolve (transformed
                        \<lparr>dependencies :=
                           concat' (tag_dependencies ti) (dependencies transformed)\<rparr>))))"

section \<open>The entry points\<close>

text \<open>\<^verbatim>\<open>if (x)\<close> for an option of a transformer.\<close>

fun truthy :: "transformerOptions option \<Rightarrow> bool" where
  "truthy None = False"
| "truthy (Some OptFalse) = False"
| "truthy (Some _) = True"

text \<open>Lines 266 to 274 of \<^verbatim>\<open>markup\<close>: the value of \<^verbatim>\<open>content\<close> after the optional
  \<^verbatim>\<open>replace\<close> transformer.\<close>

definition replaceStage :: "env \<Rightarrow> config \<Rightarrow> transformerArgs \<Rightarrow> string option io" where
  "replaceStage env cfg file =
     (if truthy (transformers cfg ''replace'')
      then await (runTransformer env ''replace'' (transformers cfg ''replace'')
                    \<lparr>content = content file, map_in = None,
                     filename = filename file, attributes = None\<rparr>)
             (\<lambda>transformed. resolve (code transformed))
      else resolve (content file))"

text \<open>\<^verbatim>\<open>markup\<close>. Calling \<^verbatim>\<open>match\<close> on \<^verbatim>\<open>undefined\<close> is a \<^verbatim>\<open>TypeError\<close>. In the
  concatenation of line 305 a \<^verbatim>\<open>code\<close> that is \<^verbatim>\<open>undefined\<close> is converted to a
  string.\<close>

definition markup :: "env \<Rightarrow> aliasMap \<Rightarrow> config \<Rightarrow> transformerArgs \<Rightarrow> processed io" where
  "markup env reg cfg file =
     await (replaceStage env cfg file) (\<lambda>replaced.
       case replaced of
         None \<Rightarrow> reject (TypeError ''match'')
       | Some document \<Rightarrow>
           (case markupPattern (markupTagName cfg) document of
              None \<Rightarrow>
                getTransformerTo env reg cfg Markup ''html''
                  \<lparr>content = Some document, map_in = None,
                   filename = filename file, attributes = Some Map.empty\<rparr>
            | Some templateMatch \<Rightarrow>
                await (getTransformerTo env reg cfg Markup ''html''
                         \<lparr>content = templateCode templateMatch, map_in = None,
                          filename = filename file,
                          attributes = Some (parseAttributes (attributesStr templateMatch))\<rparr>)
                  (\<lambda>transformed.
                     resolve
                       \<lparr>code = Some (take (index templateMatch) document
                                      @ toStringJS (code transformed)
                                      @ drop (index templateMatch
                                              + length (fullMatch templateMatch)) document),
                        map_out = map_out transformed,
                        dependencies = dependencies transformed,
                        diagnostics = None\<rparr>)))"

definition script :: "env \<Rightarrow> aliasMap \<Rightarrow> config \<Rightarrow> transformerArgs \<Rightarrow> processed io" where
  "script env reg cfg file =
     await (getTransformerTo env reg cfg Script ''javascript''
              \<lparr>content = content file, map_in = None,
               filename = filename file, attributes = attributes file\<rparr>)
       (\<lambda>transformResult.
          if truthy (transformers cfg ''babel'')
          then await (runTransformer env ''babel''
                        (Some (getTransformerOptions env cfg (Some ''babel'') None))
                        \<lparr>content = code transformResult, map_in = map_out transformResult,
                         filename = filename file, attributes = attributes file\<rparr>)
                 (\<lambda>transformed.
                    resolve
                      \<lparr>code = code transformed, map_out = map_out transformed,
                       dependencies =
                         concat' (dependencies transformResult) (dependencies transformed),
                       diagnostics =
                         concat' (diagnostics transformResult) (diagnostics transformed)\<rparr>)
          else resolve
                 \<lparr>code = code transformResult, map_out = map_out transformResult,
                  dependencies = dependencies transformResult,
                  diagnostics = diagnostics transformResult\<rparr>)"

text \<open>Lines 362 to 372 of \<^verbatim>\<open>style\<close>: \<^verbatim>\<open>code\<close>, \<^verbatim>\<open>map\<close> and \<^verbatim>\<open>dependencies\<close> after
  the optional \<^verbatim>\<open>postcss\<close> transformer.\<close>

definition postcssStage ::
  "env \<Rightarrow> config \<Rightarrow> transformerArgs \<Rightarrow> processed \<Rightarrow> processed io" where
  "postcssStage env cfg file current =
     (if truthy (transformers cfg ''postcss'')
      then await (runTransformer env ''postcss''
                    (Some (getTransformerOptions env cfg (Some ''postcss'') None))
                    \<lparr>content = code current, map_in = map_out current,
                     filename = filename file, attributes = attributes file\<rparr>)
             (\<lambda>transformed.
                resolve
                  \<lparr>code = code transformed, map_out = map_out transformed,
                   dependencies = concat' (dependencies current) (dependencies transformed),
                   diagnostics = None\<rparr>)
      else resolve current)"

definition style :: "env \<Rightarrow> aliasMap \<Rightarrow> config \<Rightarrow> transformerArgs \<Rightarrow> processed io" where
  "style env reg cfg file =
     await (getTransformerTo env reg cfg Style ''css''
              \<lparr>content = content file, map_in = None,
               filename = filename file, attributes = attributes file\<rparr>)
       (\<lambda>transformResult.
          let current = \<lparr>code = code transformResult, map_out = map_out transformResult,
                         dependencies = dependencies transformResult, diagnostics = None\<rparr>
          in if hasDepInstalled env ''postcss''
             then await (postcssStage env cfg file current) (\<lambda>current'.
                    await (runTransformer env ''globalStyle''
                             (Some (getTransformerOptions env cfg (Some ''globalStyle'') None))
                             \<lparr>content = code current', map_in = map_out current',
                              filename = filename file, attributes = attributes file\<rparr>)
                      (\<lambda>transformed.
                         resolve
                           \<lparr>code = code transformed, map_out = map_out transformed,
                            dependencies = dependencies current', diagnostics = None\<rparr>))
             else resolve current)"

section \<open>Text consumed by the end of the pattern\<close>

text \<open>The text that \<^verbatim>\<open>(?:>([\s\S]*)<\/tag>|/>)\<close> consumes, given what the second group
  captured (\<open>None\<close> for the self-closing alternative).\<close>

definition closingText :: "string \<Rightarrow> string option \<Rightarrow> string" where
  "closingText tag inner =
     (case inner of Some i \<Rightarrow> ''>'' @ i @ closingTag tag | None \<Rightarrow> ''/>'')"

section \<open>An example configuration\<close>

text \<open>A tag-info extractor that reads \<^verbatim>\<open>lang\<close> and \<^verbatim>\<open>src\<close> from the attributes,
  transformer modules \<^verbatim>\<open>pug\<close>, \<^verbatim>\<open>postcss\<close> and \<^verbatim>\<open>globalStyle\<close> that put
  the content in brackets and report one dependency each, and the configuration
  \<^verbatim>\<open>autoPreprocess()\<close>. They are the concrete inputs at which the theorems below are
  instantiated.\<close>

definition exampleGetTagInfo :: "transformerArgs \<Rightarrow> error + tagInfo" where
  "exampleGetTagInfo file =
     (let attrs = (case attributes file of None \<Rightarrow> Map.empty | Some m \<Rightarrow> m);
          l = (case attrs ''lang'' of Some (AttrString v) \<Rightarrow> Some v | _ \<Rightarrow> None)
      in Inr \<lparr>tag_content = content file, tag_filename = filename file,
              tag_lang = l, tag_alias = l,
              tag_dependencies =
                (case attrs ''src'' of Some (AttrString v) \<Rightarrow> Some [v] | _ \<Rightarrow> Some []),
              tag_attributes = attributes file\<rparr>)"

definition exampleTransformer :: "string \<Rightarrow> transformerArgs \<Rightarrow> optionsArg \<Rightarrow> error + processed" where
  "exampleTransformer name args opts =
     Inr \<lparr>code = map_option (\<lambda>c. ''['' @ c @ '']'') (content args), map_out = None,
          dependencies = Some [name @ ''.dep''], diagnostics = None\<rparr>"

definition exampleEnv :: env where
  "exampleEnv =
     \<lparr>getTagInfo = exampleGetTagInfo,
      prepareContent = (\<lambda>opts c. c),
      importTransformer =
        (\<lambda>name. if List.member [''pug'', ''postcss'', ''globalStyle''] name
                 then Some (exampleTransformer name) else None),
      hasDepInstalled = (\<lambda>dep. True),
      SOURCE_MAP_PROP_MAP = [''scss'' \<mapsto> (''sourceMap'', JBool True)]\<rparr>"

definition exampleOptions :: autoPreprocessOptions where
  "exampleOptions =
     \<lparr>aliases = None, opt_markupTagName = None, opt_preserve = None, defaults = None,
      opt_sourceMap = None, rest = Map.empty\<rparr>"

definition exampleConfig :: config where
  "exampleConfig = fst (autoPreprocess exampleOptions Map.empty)"

definition exampleDocument :: string where
  "exampleDocument = ''<p/><template lang=pug>h1 Hi</template> <template>''"

definition exampleFile :: "string \<Rightarrow> transformerArgs" where
  "exampleFile document =
     \<lparr>content = Some document, map_in = None, filename = Some ''App.svelte'', attributes = None\<rparr>"

definition exampleStyleFile :: transformerArgs where
  "exampleStyleFile =
     \<lparr>content = Some ''a{}'', map_in = None, filename = Some ''App.svelte'',
      attributes = Some [''src'' \<mapsto> AttrString ''./a.css'']\<rparr>"

definition exampleStyleTagInfo :: tagInfo where
  "exampleStyleTagInfo =
     \<lparr>tag_content = Some ''a{}'', tag_filename = Some ''App.svelte'',
      tag_lang = None, tag_alias = None, tag_dependencies = Some [''./a.css''],
      tag_attributes = Some [''src'' \<mapsto> AttrString ''./a.css'']\<rparr>"

text \<open>A \<^verbatim>\<open>prepareContent\<close> that puts the option \<^verbatim>\<open>prependData\<close> before the
  content.\<close>

definition examplePrepareContent :: "transformerOptions \<Rightarrow> string option \<Rightarrow> string option" where
  "examplePrepareContent opts c =
     (case opts of
        OptObject m \<Rightarrow>
          (case m ''prependData'' of
             Some (JStr d) \<Rightarrow> map_option (\<lambda>s. d @ s) c
           | _ \<Rightarrow> c)
      | _ \<Rightarrow> c)"

section \<open>Facts about the pattern\<close>

lemma literal_iff: "literal p s = Some r \<longleftrightarrow> s = p @ r"
  by (induction p s rule: literal.induct) auto


lemma innerToClose_sound:
  "innerToClose tag s = Some (inner, after) \<Longrightarrow> s = inner @ closingTag tag @ after"
proof (induction s arbitrary: inner)
  case Nil
  then show ?case by (auto simp: literal_iff)
next
  case (Cons c cs)
  show ?case
  proof (cases "innerToClose tag cs")
    case None
    with Cons.prems show ?thesis by (auto simp: literal_iff)
  next
    case (Some r)
    obtain i a where r: "r = (i, a)" by (cases r)
    with Some Cons.prems have "inner = c # i" "after = a" by auto
    with Cons.IH [of i] Some r show ?thesis by simp
  qed
qed




lemma closing_sound:
  "closing tag s = Some (inner, after) \<Longrightarrow> s = closingText tag inner @ after"
  unfolding closing_def closingText_def
  by (auto simp: literal_iff split: option.splits dest: innerToClose_sound)


lemma attrsThenClosing_sound:
  "attrsThenClosing tag s = Some (attrs, inner, after) \<Longrightarrow>
   s = attrs @ closingText tag inner @ after"
proof (induction s arbitrary: attrs)
  case Nil
  then show ?case by (auto dest: closing_sound)
next
  case (Cons c cs)
  then show ?case
    by (auto split: option.splits dest: closing_sound)
qed



lemma matchHere_sound:
  "matchHere tag s = Some (full, attrs, inner) \<Longrightarrow>
   full = ''<'' @ tag @ attrs @ closingText tag inner \<and> (\<exists>after. s = full @ after)"
  unfolding matchHere_def
  by (auto simp: literal_iff split: option.splits dest!: attrsThenClosing_sound)


lemma matchFrom_sound:
  "matchFrom tag n s = Some m \<Longrightarrow>
   n \<le> index m \<and>
   matchHere tag (drop (index m - n) s) = Some (fullMatch m, attributesStr m, templateCode m) \<and>
   index m - n \<le> length s"
proof (induction s arbitrary: n)
  case Nil
  then show ?case by (auto split: option.splits)
next
  case (Cons c cs)
  show ?case
  proof (cases "matchHere tag (c # cs)")
    case None
    with Cons.prems have "matchFrom tag (Suc n) cs = Some m" by simp
    from Cons.IH [OF this]
    have ih: "Suc n \<le> index m"
      "matchHere tag (drop (index m - Suc n) cs) =
         Some (fullMatch m, attributesStr m, templateCode m)"
      "index m - Suc n \<le> length cs"
      by auto
    from ih(1) have "index m - n = Suc (index m - Suc n)" by simp
    with ih show ?thesis by simp
  next
    case (Some r)
    with Cons.prems show ?thesis by (auto split: prod.splits)
  qed
qed

lemma matchFrom_leftmost:
  "matchFrom tag n s = Some m \<Longrightarrow> j < index m - n \<Longrightarrow> matchHere tag (drop j s) = None"
proof (induction s arbitrary: n j)
  case Nil
  then show ?case by (auto split: option.splits)
next
  case (Cons c cs)
  show ?case
  proof (cases "matchHere tag (c # cs)")
    case None
    with Cons.prems have mf: "matchFrom tag (Suc n) cs = Some m" by simp
    show ?thesis
    proof (cases j)
      case 0
      with None show ?thesis by simp
    next
      case (Suc i)
      with Cons.prems(2) have "i < index m - Suc n" by simp
      from Cons.IH [OF mf this] Suc show ?thesis by simp
    qed
  next
    case (Some r)
    with Cons.prems show ?thesis by (auto split: prod.splits)
  qed
qed


lemma matchFrom_None:
  "matchFrom tag n s = None \<Longrightarrow> matchHere tag (drop j s) = None"
proof (induction s arbitrary: n j)
  case Nil
  then show ?case by (auto split: option.splits)
next
  case (Cons c cs)
  then show ?case by (cases j) (auto split: option.splits)
qed


section \<open>Facts about the example\<close>

lemma lower_template: "toLocaleLowerCase ''template'' = ''template''"
  by code_simp

lemma exampleConfig_simps:
  "markupTagName exampleConfig = ''template''"
  "preserve exampleConfig = []"
  "defaultLanguages exampleConfig = (\<lambda>t. Some (builtinDefault t))"
  "sourceMap exampleConfig = False"
  "transformers exampleConfig = Map.empty"
  by (simp_all add: exampleConfig_def exampleOptions_def autoPreprocess_def lower_template
      mergeDefaults_def fun_eq_iff)

lemma await_simps:
  "await (t, Inl e) k = (t, Inl e)"
  "await (t, Inr x) k = (t @ fst (k x), snd (k x))"
  by (simp_all add: await_def split: prod.splits)

lemma example_match:
  "markupPattern ''template'' exampleDocument =
     Some \<lparr>index = 4, fullMatch = ''<template lang=pug>h1 Hi</template>'',
           attributesStr = '' lang=pug'', templateCode = Some ''h1 Hi''\<rparr>"
  by (simp add: markupPattern_def exampleDocument_def matchHere_def closing_def closingTag_def)

lemma example_attributes:
  "parseAttributes '' lang=pug'' = [''lang'' \<mapsto> AttrString ''pug'']"
  by (simp add: parseAttributes_def addAttribute_def setProperty_def isWhiteSpace_def)

lemma example_pipeline:
  "getTransformerTo exampleEnv Map.empty exampleConfig Markup ''html''
     \<lparr>content = Some ''h1 Hi'', map_in = None, filename = Some ''App.svelte'',
      attributes = Some [''lang'' \<mapsto> AttrString ''pug'']\<rparr> =
   ([Import ''pug'', Invoke ''pug''],
    Inr \<lparr>code = Some ''[h1 Hi]'', map_out = None, dependencies = Some [''pug.dep''],
         diagnostics = None\<rparr>)"
  by (simp add: getTransformerTo_def exampleEnv_def exampleGetTagInfo_def await_simps
      effectiveLanguage_def exampleConfig_simps getTransformerOptions_def resolve_def
      assignSourceMap_def exampleTransformer_def assignOverrides_def ALIAS_OPTION_OVERRIDES_def
      Let_def)


lemma example_style_tagInfo:
  "getTagInfo exampleEnv exampleStyleFile = Inr exampleStyleTagInfo"
  by (simp add: exampleEnv_def exampleGetTagInfo_def exampleStyleFile_def
      exampleStyleTagInfo_def Let_def)

lemma example_style_language:
  "effectiveLanguage Map.empty (exampleConfig\<lparr>preserve := p\<rparr>) Style exampleStyleTagInfo =
     (Some ''css'', Some ''css'')"
  by (simp add: effectiveLanguage_def exampleStyleTagInfo_def exampleConfig_simps
      getLanguageFromAlias_def Let_def)

section \<open>Properties\<close>

text \<open>
  C8. \<^verbatim>\<open>runTransformer\<close> with options \<^verbatim>\<open>false\<close> resolves at once to
  \<^verbatim>\<open>{code: content}\<close>: the content is passed through, no other field is set, and the
  trace is empty, so no transformer module is imported. With a function as options, the
  function is called once with \<^verbatim>\<open>{content, map, filename, attributes}\<close> and what it
  returns is the result; again no module is imported.
\<close>

theorem runTransformer_false_function:
  "runTransformer env name (Some OptFalse) args =
     ([], Inr \<lparr>code = content args, map_out = None, dependencies = None, diagnostics = None\<rparr>)
   \<and> runTransformer env name (Some (OptFunction f)) args =
     ([CallFunction],
      f \<lparr>content = content args, map_in = map_in args,
         filename = filename args, attributes = attributes args\<rparr>)"
  by (simp add: resolve_def)

text \<open>
  C1. When the container pattern matches the document, \<^verbatim>\<open>markup\<close> returns the text
  before the match, the transformed inner code, and the text after the match: the
  document is cut at the match's \<^verbatim>\<open>index\<close> and at \<^verbatim>\<open>index + fullMatch.length\<close>, and
  the three parts \<open>take index\<close>, \<open>fullMatch\<close>, \<open>drop (index + length fullMatch)\<close> make
  up the document, so everything outside the matched span is kept as it is. The document
  is the content after the optional \<^verbatim>\<open>replace\<close> pass.
\<close>

theorem markup_splices_matched_span:
  assumes "replaceStage env cfg file = (t0, Inr (Some document))"
    and "regexLiteral (markupTagName cfg)"
    and "markupPattern (markupTagName cfg) document = Some m"
    and "getTransformerTo env reg cfg Markup ''html''
           \<lparr>content = templateCode m, map_in = None, filename = filename file,
            attributes = Some (parseAttributes (attributesStr m))\<rparr> = (t1, Inr transformed)"
  shows "document = take (index m) document @ fullMatch m
                    @ drop (index m + length (fullMatch m)) document
       \<and> markup env reg cfg file =
           (t0 @ t1,
            Inr \<lparr>code = Some (take (index m) document @ toStringJS (code transformed)
                               @ drop (index m + length (fullMatch m)) document),
                 map_out = map_out transformed,
                 dependencies = dependencies transformed,
                 diagnostics = None\<rparr>)"
proof -
  from assms(3) have mf: "matchFrom (markupTagName cfg) 0 document = Some m"
    by (simp add: markupPattern_def)
  from matchFrom_sound [OF mf]
  have "matchHere (markupTagName cfg) (drop (index m) document) =
          Some (fullMatch m, attributesStr m, templateCode m)"
    by simp
  from matchHere_sound [OF this] obtain after where
    "drop (index m) document = fullMatch m @ after" by blast
  then have "document = take (index m) document @ fullMatch m
                    @ drop (index m + length (fullMatch m)) document"
    by (metis append_eq_conv_conj append_take_drop_id drop_drop add.commute)
  moreover have "markup env reg cfg file =
           (t0 @ t1,
            Inr \<lparr>code = Some (take (index m) document @ toStringJS (code transformed)
                               @ drop (index m + length (fullMatch m)) document),
                 map_out = map_out transformed,
                 dependencies = dependencies transformed,
                 diagnostics = None\<rparr>)"
    by (simp add: markup_def assms(1,3,4) await_simps resolve_def)
  ultimately show ?thesis by simp
qed

text \<open>The example document has the literal text \<^verbatim>\<open><template>\<close> after the container;
  it is kept.\<close>

theorem markup_splices_matched_span_witness:
  "markup exampleEnv Map.empty exampleConfig (exampleFile exampleDocument) =
     ([Import ''pug'', Invoke ''pug''],
      Inr \<lparr>code = Some ''<p/>[h1 Hi] <template>'', map_out = None,
           dependencies = Some [''pug.dep''], diagnostics = None\<rparr>)"
proof -
  have h1: "replaceStage exampleEnv exampleConfig (exampleFile exampleDocument) =
              ([], Inr (Some exampleDocument))"
    by (simp add: replaceStage_def exampleConfig_simps exampleFile_def resolve_def)
  have h2: "regexLiteral (markupTagName exampleConfig)"
    by (simp add: exampleConfig_simps regexLiteral_def regexSyntaxChars_def)
  have h3: "markupPattern (markupTagName exampleConfig) exampleDocument =
     Some \<lparr>index = 4, fullMatch = ''<template lang=pug>h1 Hi</template>'',
           attributesStr = '' lang=pug'', templateCode = Some ''h1 Hi''\<rparr>"
    by (simp add: exampleConfig_simps example_match)
  have h4: "getTransformerTo exampleEnv Map.empty exampleConfig Markup ''html''
     \<lparr>content = templateCode \<lparr>index = 4, fullMatch = ''<template lang=pug>h1 Hi</template>'',
           attributesStr = '' lang=pug'', templateCode = Some ''h1 Hi''\<rparr>, map_in = None,
      filename = filename (exampleFile exampleDocument),
      attributes = Some (parseAttributes (attributesStr \<lparr>index = 4, fullMatch = ''<template lang=pug>h1 Hi</template>'',
           attributesStr = '' lang=pug'', templateCode = Some ''h1 Hi''\<rparr>))\<rparr> =
   ([Import ''pug'', Invoke ''pug''],
    Inr \<lparr>code = Some ''[h1 Hi]'', map_out = None, dependencies = Some [''pug.dep''],
         diagnostics = None\<rparr>)"
    by (simp add: example_attributes example_pipeline exampleFile_def)
  from markup_splices_matched_span [OF h1 h2 h3 h4]
  show ?thesis by (simp add: exampleDocument_def)
qed







text \<open>
  C6. When the container pattern does not match, \<^verbatim>\<open>markup\<close> runs the markup pipeline
  on the whole document with the attributes \<^verbatim>\<open>{}\<close>, and what the pipeline yields, a
  value or a rejection, is what \<^verbatim>\<open>markup\<close> yields: nothing is spliced and no error is
  raised for the missing container. The document is the content after the optional
  \<^verbatim>\<open>replace\<close> pass.
\<close>

theorem markup_without_container:
  assumes "replaceStage env cfg file = (t0, Inr (Some document))"
    and "regexLiteral (markupTagName cfg)"
    and "markupPattern (markupTagName cfg) document = None"
    and "getTransformerTo env reg cfg Markup ''html''
           \<lparr>content = Some document, map_in = None, filename = filename file,
            attributes = Some Map.empty\<rparr> = (t1, result)"
  shows "markup env reg cfg file = (t0 @ t1, result)"
  by (simp add: markup_def assms await_simps)

text \<open>
  The document \<^verbatim>\<open><div></div><style>a{}</style>\<close> has no container.
\<close>

theorem markup_without_container_witness:
  "markup exampleEnv Map.empty exampleConfig (exampleFile ''<div></div><style>a{}</style>'') =
     ([], Inr \<lparr>code = Some ''<div></div><style>a{}</style>'', map_out = None,
               dependencies = Some [], diagnostics = None\<rparr>)"
proof -
  have h1: "replaceStage exampleEnv exampleConfig (exampleFile ''<div></div><style>a{}</style>'') =
              ([], Inr (Some ''<div></div><style>a{}</style>''))"
    by (simp add: replaceStage_def exampleConfig_simps exampleFile_def resolve_def)
  have h2: "regexLiteral (markupTagName exampleConfig)"
    by (simp add: exampleConfig_simps regexLiteral_def regexSyntaxChars_def)
  have h3: "markupPattern (markupTagName exampleConfig) ''<div></div><style>a{}</style>'' = None"
    by (simp add: exampleConfig_simps markupPattern_def matchHere_def closing_def closingTag_def)
  have h4: "getTransformerTo exampleEnv Map.empty exampleConfig Markup ''html''
           \<lparr>content = Some ''<div></div><style>a{}</style>'', map_in = None,
            filename = filename (exampleFile ''<div></div><style>a{}</style>''),
            attributes = Some Map.empty\<rparr> =
       ([], Inr \<lparr>code = Some ''<div></div><style>a{}</style>'', map_out = None,
                 dependencies = Some [], diagnostics = None\<rparr>)"
    by (simp add: await_simps getTransformerTo_def exampleEnv_def exampleGetTagInfo_def
        effectiveLanguage_def getTransformerOptions_def getLanguageFromAlias_def Let_def
        exampleConfig_simps exampleFile_def resolve_def)
  from markup_without_container [OF h1 h2 h3 h4]
  show ?thesis by simp
qed

text \<open>
  C4 as stated fails: the block's language is the target language \<^verbatim>\<open>css\<close>, which is
  also in the \<^verbatim>\<open>preserve\<close> list; the block has a dependency, and the result has
  none.
\<close>

theorem getTransformerTo_target_preserved_counterexample:
  "getTagInfo exampleEnv exampleStyleFile = Inr exampleStyleTagInfo
   \<and> fst (effectiveLanguage Map.empty (exampleConfig\<lparr>preserve := [''css'']\<rparr>) Style
            exampleStyleTagInfo) = Some ''css''
   \<and> tag_dependencies exampleStyleTagInfo = Some [''./a.css'']
   \<and> getTransformerTo exampleEnv Map.empty (exampleConfig\<lparr>preserve := [''css'']\<rparr>)
        Style ''css'' exampleStyleFile =
      ([], Inr \<lparr>code = Some ''a{}'', map_out = None, dependencies = None, diagnostics = None\<rparr>)"
  by (simp add: example_style_tagInfo example_style_language getTransformerTo_def
      await_simps resolve_def)
    (simp add: exampleStyleTagInfo_def)

text \<open>
  The code returned for a block in the target language is the content as prepared: with
  a \<^verbatim>\<open>prepareContent\<close> that prepends data, it is not the content of the block.
\<close>

lemma getTransformerTo_target_language_prepared:
  "getTransformerTo (exampleEnv\<lparr>prepareContent := examplePrepareContent\<rparr>) Map.empty
     (exampleConfig\<lparr>transformers := [''css'' \<mapsto> OptObject [''prependData'' \<mapsto> JStr ''b{}'']]\<rparr>)
     Style ''css'' exampleStyleFile =
   ([], Inr \<lparr>code = Some ''b{}a{}'', map_out = None, dependencies = Some [''./a.css''],
             diagnostics = None\<rparr>)"
  by (simp add: getTransformerTo_def exampleEnv_def exampleGetTagInfo_def exampleStyleFile_def
      await_simps effectiveLanguage_def Let_def getLanguageFromAlias_def resolve_def
      exampleConfig_simps getTransformerOptions_def examplePrepareContent_def
      assignSourceMap_def)

text \<open>
  C4, amended. For a block whose effective language is the target language and whose
  language and alias are not in the \<^verbatim>\<open>preserve\<close> list, the pipeline returns as code
  the block's content as \<^verbatim>\<open>prepareContent\<close> returns it under the resolved options,
  together with the block's own dependencies; the trace is empty, so no transformer module
  is imported or called.
\<close>

theorem getTransformerTo_target_language:
  assumes "getTagInfo env file = Inr ti"
    and "effectiveLanguage reg cfg type ti = (Some targetLanguage, a)"
    and "\<not> arrayIncludes (preserve cfg) (Some targetLanguage)"
    and "\<not> arrayIncludes (preserve cfg) a"
  shows "getTransformerTo env reg cfg type targetLanguage file =
           ([], Inr \<lparr>code = prepareContent env
                              (getTransformerOptions env cfg (Some targetLanguage) a)
                              (tag_content ti),
                     map_out = None, dependencies = tag_dependencies ti,
                     diagnostics = None\<rparr>)"
  using assms by (simp add: getTransformerTo_def await_simps resolve_def Let_def)

text \<open>
  A plain style block with a \<^verbatim>\<open>src\<close> attribute.
\<close>

theorem getTransformerTo_target_language_witness:
  "getTransformerTo exampleEnv Map.empty exampleConfig Style ''css'' exampleStyleFile =
     ([], Inr \<lparr>code = Some ''a{}'', map_out = None, dependencies = Some [''./a.css''],
               diagnostics = None\<rparr>)"
proof -
  have h2: "effectiveLanguage Map.empty exampleConfig Style exampleStyleTagInfo =
     (Some ''css'', Some ''css'')"
    using example_style_language [of "preserve exampleConfig"] by simp
  have h3: "\<not> arrayIncludes (preserve exampleConfig) (Some ''css'')"
    by (simp add: exampleConfig_simps)
  from getTransformerTo_target_language [OF example_style_tagInfo h2 h3 h3]
  show ?thesis by (simp add: exampleEnv_def exampleStyleTagInfo_def)
qed

text \<open>
  C5. For a block whose effective language or alias is in the \<^verbatim>\<open>preserve\<close> list, the
  pipeline returns \<^verbatim>\<open>{code: content}\<close> with the content of the tag info and no
  dependencies; the trace is empty. The result is the same whatever
  \<^verbatim>\<open>prepareContent\<close>, the transformer modules, the source-map table, the configured
  transformer options and the \<^verbatim>\<open>sourceMap\<close> flag are: none of them is consulted.
\<close>

theorem getTransformerTo_preserve:
  assumes "getTagInfo env file = Inr ti"
    and "effectiveLanguage reg cfg type ti = (l, a)"
    and "arrayIncludes (preserve cfg) l \<or> arrayIncludes (preserve cfg) a"
  shows "getTransformerTo env reg cfg type targetLanguage file =
           ([], Inr \<lparr>code = tag_content ti, map_out = None, dependencies = None,
                     diagnostics = None\<rparr>)
       \<and> getTransformerTo
           (env\<lparr>prepareContent := prepare, importTransformer := modules,
                 SOURCE_MAP_PROP_MAP := table\<rparr>)
           reg (cfg\<lparr>transformers := options, sourceMap := flag\<rparr>) type targetLanguage file =
           ([], Inr \<lparr>code = tag_content ti, map_out = None, dependencies = None,
                     diagnostics = None\<rparr>)"
proof -
  have "effectiveLanguage reg (cfg\<lparr>transformers := options, sourceMap := flag\<rparr>) type ti
          = effectiveLanguage reg cfg type ti"
    by (simp add: effectiveLanguage_def)
  with assms(2)
  have "effectiveLanguage reg (cfg\<lparr>transformers := options, sourceMap := flag\<rparr>) type ti
          = (l, a)"
    by simp
  then show ?thesis
    using assms by (auto simp: getTransformerTo_def await_simps resolve_def)
qed

text \<open>
  The block of the example has a dependency; with \<^verbatim>\<open>css\<close> preserved it is dropped.
\<close>

theorem getTransformerTo_preserve_witness:
  "arrayIncludes (preserve (exampleConfig\<lparr>preserve := [''css'']\<rparr>)) (Some ''css'')
   \<and> getTransformerTo exampleEnv Map.empty (exampleConfig\<lparr>preserve := [''css'']\<rparr>)
        Style ''scss'' exampleStyleFile =
      ([], Inr \<lparr>code = Some ''a{}'', map_out = None, dependencies = None, diagnostics = None\<rparr>)"
proof -
  have h3: "arrayIncludes (preserve (exampleConfig\<lparr>preserve := [''css'']\<rparr>)) (Some ''css'')
          \<or> arrayIncludes (preserve (exampleConfig\<lparr>preserve := [''css'']\<rparr>)) (Some ''css'')"
    by simp
  from getTransformerTo_preserve [OF example_style_tagInfo example_style_language h3,
      of "''scss''"]
  show ?thesis by (simp add: exampleStyleTagInfo_def)
qed

text \<open>
  C7. Let the alias differ from the name and have an entry in
  \<^verbatim>\<open>ALIAS_OPTION_OVERRIDES\<close>, and let neither the name-keyed nor the alias-keyed option
  be a function or \<^verbatim>\<open>false\<close>. Then the resolved options are an object in which, for
  every key that the source-map injection does not write: a key of the alias-keyed
  object has the alias-keyed value (it wins over the override and the name-keyed
  options), and a key of the override that the alias-keyed object does not have has the
  override's value (with or without name-keyed options, and also when there are no
  alias-keyed options at all).
\<close>

theorem getTransformerOptions_alias_override:
  assumes "n \<noteq> al"
    and "ALIAS_OPTION_OVERRIDES al = Some override"
    and "\<not> isFunction (transformers cfg n)" and "\<not> isFunction (transformers cfg al)"
    and "\<not> isFalse (transformers cfg n)" and "\<not> isFalse (transformers cfg al)"
  shows "\<exists>opts. getTransformerOptions env cfg (Some n) (Some al) = OptObject opts
       \<and> (\<forall>k v. (sourceMap cfg \<longrightarrow> (\<forall>w. SOURCE_MAP_PROP_MAP env n \<noteq> Some (k, w))) \<longrightarrow>
             (assignObject Map.empty (transformers cfg al) k = Some v \<longrightarrow> opts k = Some v)
           \<and> (assignObject Map.empty (transformers cfg al) k = None \<longrightarrow> override k = Some v
                \<longrightarrow> opts k = Some v))"
proof -
  let ?nameObj = "assignObject Map.empty (transformers cfg n)"
  let ?aliasObj = "assignObject Map.empty (transformers cfg al)"
  let ?merged = "?nameObj ++ override ++ ?aliasObj"
  have assign: "assignObject m x = m ++ assignObject Map.empty x" for m x
    by (cases "(m, x)" rule: assignObject.cases) simp_all
  have res: "getTransformerOptions env cfg (Some n) (Some al) =
               OptObject (assignSourceMap env cfg (Some n) ?merged)"
    using assms
    by (simp add: getTransformerOptions_def Let_def assignOverrides_def
        assign [of "_ ++ _"])
  have "assignSourceMap env cfg (Some n) ?merged k = ?merged k"
    if "sourceMap cfg \<longrightarrow> (\<forall>w. SOURCE_MAP_PROP_MAP env n \<noteq> Some (k, w))" for k
    using that by (auto simp: assignSourceMap_def split: option.splits)
  moreover have "?merged k = Some v" if "?aliasObj k = Some v" for k v
    using that by (simp add: map_add_Some_iff)
  moreover have "?merged k = Some v" if "?aliasObj k = None" "override k = Some v" for k v
    using that by (simp add: map_add_Some_iff)
  ultimately show ?thesis
    using res by auto
qed

text \<open>
  Name \<^verbatim>\<open>scss\<close>, alias \<^verbatim>\<open>sass\<close>: with no options configured, and with both
  name-keyed and alias-keyed objects.
\<close>

theorem getTransformerOptions_alias_override_witness:
  "(\<exists>opts. getTransformerOptions exampleEnv (exampleConfig\<lparr>sourceMap := True\<rparr>)
              (Some ''scss'') (Some ''sass'') = OptObject opts
          \<and> opts ''indentedSyntax'' = Some (JBool True))
   \<and> (\<exists>opts. getTransformerOptions exampleEnv
              (exampleConfig\<lparr>transformers :=
                 [''scss'' \<mapsto> OptObject [''indentedSyntax'' \<mapsto> JNum 0, ''x'' \<mapsto> JNum 1],
                  ''sass'' \<mapsto> OptObject [''x'' \<mapsto> JNum 2]]\<rparr>)
              (Some ''scss'') (Some ''sass'') = OptObject opts
          \<and> opts ''indentedSyntax'' = Some (JBool True) \<and> opts ''x'' = Some (JNum 2))"
proof -
  let ?cfg1 = "exampleConfig\<lparr>sourceMap := True\<rparr>"
  let ?cfg2 = "exampleConfig\<lparr>transformers :=
                 [''scss'' \<mapsto> OptObject [''indentedSyntax'' \<mapsto> JNum 0, ''x'' \<mapsto> JNum 1],
                  ''sass'' \<mapsto> OptObject [''x'' \<mapsto> JNum 2]]\<rparr>"
  have h1: "''scss'' \<noteq> ''sass''" by simp
  have h2: "ALIAS_OPTION_OVERRIDES ''sass'' = Some [''indentedSyntax'' \<mapsto> JBool True]"
    by (simp add: ALIAS_OPTION_OVERRIDES_def)
  have a: "\<not> isFunction (transformers ?cfg1 ''scss'')" "\<not> isFunction (transformers ?cfg1 ''sass'')"
    "\<not> isFalse (transformers ?cfg1 ''scss'')" "\<not> isFalse (transformers ?cfg1 ''sass'')"
    by (simp_all add: exampleConfig_simps)
  have b: "\<not> isFunction (transformers ?cfg2 ''scss'')" "\<not> isFunction (transformers ?cfg2 ''sass'')"
    "\<not> isFalse (transformers ?cfg2 ''scss'')" "\<not> isFalse (transformers ?cfg2 ''sass'')"
    by simp_all
  from getTransformerOptions_alias_override [OF h1 h2 a, of exampleEnv]
  obtain opts1 where o1: "getTransformerOptions exampleEnv ?cfg1 (Some ''scss'') (Some ''sass'')
      = OptObject opts1"
    and r1: "\<And>k v. (sourceMap ?cfg1 \<longrightarrow> (\<forall>w. SOURCE_MAP_PROP_MAP exampleEnv ''scss'' \<noteq> Some (k, w))) \<Longrightarrow>
        assignObject Map.empty (transformers ?cfg1 ''sass'') k = None \<Longrightarrow>
        [''indentedSyntax'' \<mapsto> JBool True] k = Some v \<Longrightarrow> opts1 k = Some v"
    by blast
  have "opts1 ''indentedSyntax'' = Some (JBool True)"
    by (rule r1) (simp_all add: exampleEnv_def exampleConfig_simps)
  with o1 have w1: "\<exists>opts. getTransformerOptions exampleEnv ?cfg1 (Some ''scss'') (Some ''sass'')
      = OptObject opts \<and> opts ''indentedSyntax'' = Some (JBool True)"
    by blast
  from getTransformerOptions_alias_override [OF h1 h2 b, of exampleEnv]
  obtain opts2 where o2: "getTransformerOptions exampleEnv ?cfg2 (Some ''scss'') (Some ''sass'')
      = OptObject opts2"
    and r2: "\<And>k v. (sourceMap ?cfg2 \<longrightarrow> (\<forall>w. SOURCE_MAP_PROP_MAP exampleEnv ''scss'' \<noteq> Some (k, w))) \<Longrightarrow>
        assignObject Map.empty (transformers ?cfg2 ''sass'') k = None \<Longrightarrow>
        [''indentedSyntax'' \<mapsto> JBool True] k = Some v \<Longrightarrow> opts2 k = Some v"
    and r3: "\<And>k v. (sourceMap ?cfg2 \<longrightarrow> (\<forall>w. SOURCE_MAP_PROP_MAP exampleEnv ''scss'' \<noteq> Some (k, w))) \<Longrightarrow>
        assignObject Map.empty (transformers ?cfg2 ''sass'') k = Some v \<Longrightarrow> opts2 k = Some v"
    by blast
  have "opts2 ''indentedSyntax'' = Some (JBool True)"
    by (rule r2) (simp_all add: exampleConfig_simps)
  moreover have "opts2 ''x'' = Some (JNum 2)"
    by (rule r3) (simp_all add: exampleConfig_simps)
  ultimately have w2: "\<exists>opts. getTransformerOptions exampleEnv ?cfg2 (Some ''scss'') (Some ''sass'')
      = OptObject opts \<and> opts ''indentedSyntax'' = Some (JBool True) \<and> opts ''x'' = Some (JNum 2)"
    using o2 by blast
  from w1 w2 show ?thesis by (rule conjI)
qed




text \<open>
  C10. Let the style pipeline resolve to \<open>piped\<close>. When \<^verbatim>\<open>postcss\<close> is installed
  and configured, the returned dependencies are the style pipeline's merged with those of
  the \<^verbatim>\<open>postcss\<close> transformer; when it is installed and not configured, they are the
  style pipeline's. In both cases the \<^verbatim>\<open>globalStyle\<close> transformer runs and gives the
  result its code and map only: its dependencies are not in the result. When
  \<^verbatim>\<open>postcss\<close> is not installed, neither stage runs and the result is the style
  pipeline's code, map and dependencies.
\<close>

theorem style_dependencies:
  assumes "getTransformerTo env reg cfg Style ''css''
             \<lparr>content = content file, map_in = None, filename = filename file,
              attributes = attributes file\<rparr> = (t0, Inr piped)"
  shows "(hasDepInstalled env ''postcss'' \<and> truthy (transformers cfg ''postcss'') \<longrightarrow>
            runTransformer env ''postcss''
              (Some (getTransformerOptions env cfg (Some ''postcss'') None))
              \<lparr>content = code piped, map_in = map_out piped, filename = filename file,
               attributes = attributes file\<rparr> = (t1, Inr post) \<longrightarrow>
            runTransformer env ''globalStyle''
              (Some (getTransformerOptions env cfg (Some ''globalStyle'') None))
              \<lparr>content = code post, map_in = map_out post, filename = filename file,
               attributes = attributes file\<rparr> = (t2, Inr global) \<longrightarrow>
            style env reg cfg file =
              (t0 @ t1 @ t2,
               Inr \<lparr>code = code global, map_out = map_out global,
                    dependencies = concat' (dependencies piped) (dependencies post),
                    diagnostics = None\<rparr>))
       \<and> (hasDepInstalled env ''postcss'' \<and> \<not> truthy (transformers cfg ''postcss'') \<longrightarrow>
            runTransformer env ''globalStyle''
              (Some (getTransformerOptions env cfg (Some ''globalStyle'') None))
              \<lparr>content = code piped, map_in = map_out piped, filename = filename file,
               attributes = attributes file\<rparr> = (t2, Inr global) \<longrightarrow>
            style env reg cfg file =
              (t0 @ t2,
               Inr \<lparr>code = code global, map_out = map_out global,
                    dependencies = dependencies piped, diagnostics = None\<rparr>))
       \<and> (\<not> hasDepInstalled env ''postcss'' \<longrightarrow>
            style env reg cfg file =
              (t0,
               Inr \<lparr>code = code piped, map_out = map_out piped,
                    dependencies = dependencies piped, diagnostics = None\<rparr>))"
  using assms
  by (simp add: style_def postcssStage_def await_simps resolve_def Let_def)

text \<open>
  The example transformers report \<^verbatim>\<open>postcss.dep\<close> and \<^verbatim>\<open>globalStyle.dep\<close>; the
  second is in no result.
\<close>

theorem style_dependencies_witness:
  "style exampleEnv Map.empty (exampleConfig\<lparr>transformers := [''postcss'' \<mapsto> OptTrue]\<rparr>)
     exampleStyleFile =
     ([Import ''postcss'', Invoke ''postcss'', Import ''globalStyle'', Invoke ''globalStyle''],
      Inr \<lparr>code = Some ''[[a{}]]'', map_out = None,
           dependencies = Some [''./a.css'', ''postcss.dep''], diagnostics = None\<rparr>)
   \<and> style exampleEnv Map.empty exampleConfig exampleStyleFile =
     ([Import ''globalStyle'', Invoke ''globalStyle''],
      Inr \<lparr>code = Some ''[a{}]'', map_out = None,
           dependencies = Some [''./a.css''], diagnostics = None\<rparr>)
   \<and> style (exampleEnv\<lparr>hasDepInstalled := (\<lambda>dep. False)\<rparr>) Map.empty exampleConfig
       exampleStyleFile =
     ([], Inr \<lparr>code = Some ''a{}'', map_out = None,
               dependencies = Some [''./a.css''], diagnostics = None\<rparr>)"
proof -
  let ?cfg = "exampleConfig\<lparr>transformers := [''postcss'' \<mapsto> OptTrue]\<rparr>"
  let ?env' = "exampleEnv\<lparr>hasDepInstalled := (\<lambda>dep. False)\<rparr>"
  let ?piped = "\<lparr>code = Some ''a{}'', map_out = None, dependencies = Some [''./a.css''],
                 diagnostics = None\<rparr>"
  let ?post = "\<lparr>code = Some ''[a{}]'', map_out = None, dependencies = Some [''postcss.dep''],
                 diagnostics = None\<rparr>"
  let ?global = "\<lparr>code = Some ''[[a{}]]'', map_out = None,
                   dependencies = Some [''globalStyle.dep''], diagnostics = None\<rparr>"
  let ?global' = "\<lparr>code = Some ''[a{}]'', map_out = None,
                   dependencies = Some [''globalStyle.dep''], diagnostics = None\<rparr>"
  have p: "getTransformerTo env' Map.empty cfg' Style ''css''
             \<lparr>content = content exampleStyleFile, map_in = None,
              filename = filename exampleStyleFile,
              attributes = attributes exampleStyleFile\<rparr> = ([], Inr ?piped)"
    if "preserve cfg' = []" "defaultLanguages cfg' = (\<lambda>t. Some (builtinDefault t))"
       "getTagInfo env' = exampleGetTagInfo" "prepareContent env' = (\<lambda>opts c. c)"
    for cfg' env'
    using that
    by (simp add: getTransformerTo_def exampleGetTagInfo_def
        exampleStyleFile_def await_simps effectiveLanguage_def Let_def
        getLanguageFromAlias_def resolve_def)
  have h1: "getTransformerTo exampleEnv Map.empty ?cfg Style ''css''
             \<lparr>content = content exampleStyleFile, map_in = None,
              filename = filename exampleStyleFile,
              attributes = attributes exampleStyleFile\<rparr> = ([], Inr ?piped)"
    by (rule p) (simp_all add: exampleConfig_simps exampleEnv_def)
  have h1': "getTransformerTo exampleEnv Map.empty exampleConfig Style ''css''
             \<lparr>content = content exampleStyleFile, map_in = None,
              filename = filename exampleStyleFile,
              attributes = attributes exampleStyleFile\<rparr> = ([], Inr ?piped)"
    by (rule p) (simp_all add: exampleConfig_simps exampleEnv_def)
  have h1'': "getTransformerTo ?env' Map.empty exampleConfig Style ''css''
             \<lparr>content = content exampleStyleFile, map_in = None,
              filename = filename exampleStyleFile,
              attributes = attributes exampleStyleFile\<rparr> = ([], Inr ?piped)"
    by (rule p) (simp_all add: exampleConfig_simps exampleEnv_def)
  have h2: "hasDepInstalled exampleEnv ''postcss''"
    by (simp add: exampleEnv_def)
  have h2': "\<not> hasDepInstalled ?env' ''postcss''"
    by simp
  have h3: "truthy (transformers ?cfg ''postcss'')" by simp
  have h3': "\<not> truthy (transformers exampleConfig ''postcss'')"
    by (simp add: exampleConfig_simps)
  have run: "runTransformer exampleEnv name (Some (getTransformerOptions exampleEnv cfg' (Some name) None))
               \<lparr>content = Some c, map_in = None, filename = f, attributes = at\<rparr> =
             ([Import name, Invoke name],
              Inr \<lparr>code = Some (''['' @ c @ '']''), map_out = None,
                   dependencies = Some [name @ ''.dep''], diagnostics = None\<rparr>)"
    if "List.member [''postcss'', ''globalStyle''] name"
       "\<not> isFunction (transformers cfg' name)" "\<not> isFalse (transformers cfg' name)"
       "transformers cfg' ''undefined'' = None"
    for name cfg' c f at
    using that
    by (auto simp: getTransformerOptions_def Let_def exampleEnv_def exampleTransformer_def)
  have h4: "runTransformer exampleEnv ''postcss''
              (Some (getTransformerOptions exampleEnv ?cfg (Some ''postcss'') None))
              \<lparr>content = code ?piped, map_in = map_out ?piped,
               filename = filename exampleStyleFile,
               attributes = attributes exampleStyleFile\<rparr> =
            ([Import ''postcss'', Invoke ''postcss''], Inr ?post)"
    using run [of "''postcss''" ?cfg "''a{}''"] by (simp add: exampleConfig_simps)
  have h5: "runTransformer exampleEnv ''globalStyle''
              (Some (getTransformerOptions exampleEnv ?cfg (Some ''globalStyle'') None))
              \<lparr>content = code ?post, map_in = map_out ?post,
               filename = filename exampleStyleFile,
               attributes = attributes exampleStyleFile\<rparr> =
            ([Import ''globalStyle'', Invoke ''globalStyle''], Inr ?global)"
    using run [of "''globalStyle''" ?cfg "''[a{}]''"] by (simp add: exampleConfig_simps)
  have h5': "runTransformer exampleEnv ''globalStyle''
              (Some (getTransformerOptions exampleEnv exampleConfig (Some ''globalStyle'') None))
              \<lparr>content = code ?piped, map_in = map_out ?piped,
               filename = filename exampleStyleFile,
               attributes = attributes exampleStyleFile\<rparr> =
            ([Import ''globalStyle'', Invoke ''globalStyle''], Inr ?global')"
    using run [of "''globalStyle''" exampleConfig "''a{}''"] by (simp add: exampleConfig_simps)
  from style_dependencies [OF h1] h2 h3 h4 h5
  have a: "style exampleEnv Map.empty ?cfg exampleStyleFile =
     ([Import ''postcss'', Invoke ''postcss'', Import ''globalStyle'', Invoke ''globalStyle''],
      Inr \<lparr>code = Some ''[[a{}]]'', map_out = None,
           dependencies = Some [''./a.css'', ''postcss.dep''], diagnostics = None\<rparr>)"
    by simp
  from style_dependencies [OF h1'] h2 h3' h5'
  have b: "style exampleEnv Map.empty exampleConfig exampleStyleFile =
     ([Import ''globalStyle'', Invoke ''globalStyle''],
      Inr \<lparr>code = Some ''[a{}]'', map_out = None,
           dependencies = Some [''./a.css''], diagnostics = None\<rparr>)"
    by simp
  from style_dependencies [OF h1''] h2'
  have c: "style ?env' Map.empty exampleConfig exampleStyleFile =
     ([], Inr \<lparr>code = Some ''a{}'', map_out = None,
               dependencies = Some [''./a.css''], diagnostics = None\<rparr>)"
    by simp
  from a b c show ?thesis by (intro conjI)
qed

end
